theory Spec2Isabelle
  imports Main
begin

section \<open>Python values\<close>

text \<open>
  The three scripts exchange JSON documents, which Python's \<open>json\<close> module turns into
  \<open>None\<close>, \<open>bool\<close>, \<open>int\<close>, \<open>float\<close>, \<open>str\<close>, \<open>list\<close> and \<open>dict\<close> objects.
  A \<open>dict\<close> is an association list in insertion order, looked up from the front.
  An element of a \<open>string\<close> stands for one code point of the Python \<open>str\<close>
  (HOL characters cover the code points below 256).
  Floats are never computed with here: only their truth value is read.
\<close>

datatype pyfloat = Finite bool nat int | Infinity bool | NaN

datatype json =
    JNull
  | JBool bool
  | JInt int
  | JFloat pyfloat
  | JStr string
  | JArr "json list"
  | JObj "(string \<times> json) list"

text \<open>Exceptions are values: a class and the text that \<open>str(e)\<close> gives.\<close>

datatype exn_class =
  JSONDecodeError | ValueError | AttributeError | TypeError | RuntimeError | Exception

datatype exn = Exn (cls: exn_class) (msg: string)

fun type_name :: "json \<Rightarrow> string" where
  "type_name JNull = ''NoneType''"
| "type_name (JBool _) = ''bool''"
| "type_name (JInt _) = ''int''"
| "type_name (JFloat _) = ''float''"
| "type_name (JStr _) = ''str''"
| "type_name (JArr _) = ''list''"
| "type_name (JObj _) = ''dict''"

text \<open>Python's truth value of an object, as \<open>if not x\<close> reads it.\<close>

fun truthy :: "json \<Rightarrow> bool" where
  "truthy JNull = False"
| "truthy (JBool b) = b"
| "truthy (JInt i) = (i \<noteq> 0)"
| "truthy (JFloat (Finite _ m _)) = (m \<noteq> 0)"
| "truthy (JFloat _) = True"
| "truthy (JStr s) = (s \<noteq> [])"
| "truthy (JArr xs) = (xs \<noteq> [])"
| "truthy (JObj kv) = (kv \<noteq> [])"

text \<open>A name between single quotes, as Python's own messages print it.\<close>

definition quoted :: "string \<Rightarrow> string" where
  "quoted s = [CHR 0x27] @ s @ [CHR 0x27]"

definition no_attribute :: "json \<Rightarrow> string \<Rightarrow> exn" where
  "no_attribute v a =
     Exn AttributeError (quoted (type_name v) @ '' object has no attribute '' @ quoted a)"

text \<open>\<open>x.get(k, d)\<close>: only a \<open>dict\<close> has the method.\<close>

fun py_get :: "json \<Rightarrow> string \<Rightarrow> json \<Rightarrow> exn + json" where
  "py_get (JObj kv) k d = Inr (case map_of kv k of None \<Rightarrow> d | Some v \<Rightarrow> v)"
| "py_get v k d = Inl (no_attribute v ''get'')"

text \<open>\<open>len(x)\<close>: defined on \<open>str\<close>, \<open>list\<close> and \<open>dict\<close>.\<close>

fun py_len :: "json \<Rightarrow> exn + nat" where
  "py_len (JStr s) = Inr (length s)"
| "py_len (JArr xs) = Inr (length xs)"
| "py_len (JObj kv) = Inr (length (remdups (map fst kv)))"
| "py_len v = Inl (Exn TypeError (''object of type '' @ quoted (type_name v) @ '' has no len()''))"

text \<open>\<open>str.strip()\<close> removes the white space at both ends.\<close>

definition is_space :: "char \<Rightarrow> bool" where
  "is_space c =
     (of_char c \<in> {9, 10, 11, 12, 13, 28, 29, 30, 31, 32, 133, 160 :: nat})"

definition strip :: "string \<Rightarrow> string" where
  "strip s = rev (dropWhile is_space (rev (dropWhile is_space s)))"


section \<open>The streaming embedding worker (embed_server.py)\<close>

text \<open>
  The tokenizer, the model and the device are one opaque backend: a function from the
  text to either the message of the exception it raises or the object that
  \<open>embedding.squeeze().cpu().tolist()\<close> returns. \<open>json.loads\<close> and the loading of the
  model are parameters too. Standard output is the list of the documents printed, one
  per line, and \<open>calls\<close> records every text handed to the backend.
  Signals are outside the model, and writing to standard output is taken to succeed.
\<close>

type_synonym backend = "json \<Rightarrow> string + json"

record env =
  json_loads :: "string \<Rightarrow> exn + json"
  from_pretrained :: "string \<Rightarrow> string + backend"

record world =
  MODEL_NAME :: string
  model :: "backend option"
  stdout :: "json list"
  calls :: "json list"

definition print_line :: "world \<Rightarrow> json \<Rightarrow> world" where
  "print_line w v = w\<lparr>stdout := stdout w @ [v]\<rparr>"

definition setup_model :: "env \<Rightarrow> world \<Rightarrow> world \<times> int option" where
  "setup_model E w =
     (case from_pretrained E (MODEL_NAME w) of
        Inr b \<Rightarrow>
          (print_line (w\<lparr>model := Some b\<rparr>) (JObj [(''type'', JStr ''ready'')]), None)
      | Inl m \<Rightarrow>
          (print_line w
             (JObj [(''type'', JStr ''error''),
                    (''error'', JStr (''Failed to load model: '' @ m))]),
           Some 1))"

definition get_embedding :: "world \<Rightarrow> json \<Rightarrow> json \<Rightarrow> world \<times> (exn + json)" where
  "get_embedding w text is_query =
     (case model w of
        None \<Rightarrow>
          (w, Inl (Exn Exception
                 (''Embedding generation failed: '' @ quoted ''NoneType'' @ '' object is not callable'')))
      | Some b \<Rightarrow>
          (let w' = w\<lparr>calls := calls w @ [text]\<rparr> in
           case b text of
             Inl m \<Rightarrow> (w', Inl (Exn Exception (''Embedding generation failed: '' @ m)))
           | Inr embedding \<Rightarrow> (w', Inr embedding)))"

text \<open>The \<open>try\<close> block of \<open>process_request\<close>, up to the response it builds.\<close>

definition request_body :: "world \<Rightarrow> json \<Rightarrow> world \<times> (exn + json)" where
  "request_body w request_data =
     (case py_get request_data ''id'' JNull of
        Inl e \<Rightarrow> (w, Inl e)
      | Inr request_id \<Rightarrow>
     (case py_get request_data ''text'' (JStr '''') of
        Inl e \<Rightarrow> (w, Inl e)
      | Inr text \<Rightarrow>
     (case py_get request_data ''is_query'' (JBool False) of
        Inl e \<Rightarrow> (w, Inl e)
      | Inr is_query \<Rightarrow>
     if \<not> truthy text then (w, Inl (Exn ValueError ''No text provided''))
     else
       (case get_embedding w text is_query of
          (w', Inl e) \<Rightarrow> (w', Inl e)
        | (w', Inr embedding) \<Rightarrow>
            (case py_len embedding of
               Inl e \<Rightarrow> (w', Inl e)
             | Inr n \<Rightarrow>
                 (w', Inr (JObj [(''type'', JStr ''result''),
                                 (''id'', request_id),
                                 (''embedding'', embedding),
                                 (''dimensions'', JInt (int n)),
                                 (''model'', JStr (MODEL_NAME w'))])))))))"

text \<open>
  \<open>process_request\<close>: the handler reads the id again, which raises once more when the
  request is not a \<open>dict\<close>; that exception leaves the function (\<open>Some e\<close>).
\<close>

definition process_request :: "world \<Rightarrow> json \<Rightarrow> world \<times> exn option" where
  "process_request w request_data =
     (case request_body w request_data of
        (w', Inr response) \<Rightarrow> (print_line w' response, None)
      | (w', Inl e) \<Rightarrow>
          (case py_get request_data ''id'' JNull of
             Inl e' \<Rightarrow> (w', Some e')
           | Inr i \<Rightarrow>
               (print_line w'
                  (JObj [(''type'', JStr ''result''), (''id'', i), (''error'', JStr (msg e))]),
                None)))"

text \<open>The two \<open>except\<close> clauses of the read loop.\<close>

definition report :: "world \<Rightarrow> exn \<Rightarrow> world" where
  "report w e =
     (if cls e = JSONDecodeError then
        print_line w
          (JObj [(''type'', JStr ''result''), (''id'', JNull),
                 (''error'', JStr (''Invalid JSON: '' @ msg e))])
      else
        print_line w
          (JObj [(''type'', JStr ''result''), (''id'', JNull),
                 (''error'', JStr (''Request processing error: '' @ msg e))]))"

text \<open>One turn of \<open>for line in sys.stdin\<close>.\<close>

definition handle_line :: "env \<Rightarrow> world \<Rightarrow> string \<Rightarrow> world" where
  "handle_line E w raw =
     (let line = strip raw in
      if line = [] then w
      else
        (case json_loads E line of
           Inl e \<Rightarrow> report w e
         | Inr request_data \<Rightarrow>
             (case process_request w request_data of
                (w', None) \<Rightarrow> w'
              | (w', Some e) \<Rightarrow> report w' e)))"

fun serve :: "env \<Rightarrow> world \<Rightarrow> string list \<Rightarrow> world" where
  "serve E w [] = w"
| "serve E w (raw # rest) = serve E (handle_line E w raw) rest"

definition DEFAULT_MODEL_NAME :: string where
  "DEFAULT_MODEL_NAME = ''mixedbread-ai/mxbai-embed-large-v1''"

definition start :: "string list \<Rightarrow> world" where
  "start argv =
     \<lparr>MODEL_NAME = (if length argv > 1 then argv ! 1 else DEFAULT_MODEL_NAME),
      model = None, stdout = [], calls = []\<rparr>"

text \<open>\<open>main\<close>: the final world and the exit code of the process.\<close>

definition main :: "env \<Rightarrow> string list \<Rightarrow> string list \<Rightarrow> world \<times> int" where
  "main E argv lines =
     (case setup_model E (start argv) of
        (w, Some code) \<Rightarrow> (w, code)
      | (w, None) \<Rightarrow> (serve E w lines, 0))"


section \<open>The one-shot embedding script (embed.py)\<close>

text \<open>
  The script loads the tokenizer, the model and the pipeline when the module is run,
  outside every \<open>try\<close>: a failure there ends the process with status 1 and nothing on
  standard output. Standard input is either the exception that reading it raises or
  the text read. The script's \<open>get_embedding\<close> has no handler of its own; of the
  backend's exception only the text is kept.
\<close>

definition oneshot_get_embedding :: "world \<Rightarrow> json \<Rightarrow> json \<Rightarrow> world \<times> (exn + json)" where
  "oneshot_get_embedding w code_string is_query =
     (case model w of
        None \<Rightarrow> (w, Inl (Exn TypeError (quoted ''NoneType'' @ '' object is not callable'')))
      | Some b \<Rightarrow>
          (let w' = w\<lparr>calls := calls w @ [code_string]\<rparr> in
           case b code_string of
             Inl m \<Rightarrow> (w', Inl (Exn Exception m))
           | Inr embedding \<Rightarrow> (w', Inr embedding)))"

text \<open>The inner \<open>try\<close>: JSON first, the whole input as plain text otherwise.\<close>

definition oneshot_parse :: "env \<Rightarrow> string \<Rightarrow> exn + json \<times> json" where
  "oneshot_parse E input_data =
     (case json_loads E input_data of
        Inr parsed_input \<Rightarrow>
          (case py_get parsed_input ''text'' (JStr '''') of
             Inl e \<Rightarrow> Inl e
           | Inr text \<Rightarrow>
               (case py_get parsed_input ''is_query'' (JBool False) of
                  Inl e \<Rightarrow> Inl e
                | Inr is_query \<Rightarrow> Inr (text, is_query)))
      | Inl e \<Rightarrow>
          (if cls e = JSONDecodeError then Inr (JStr input_data, JBool False) else Inl e))"

definition oneshot_body :: "env \<Rightarrow> world \<Rightarrow> exn + string \<Rightarrow> world \<times> (exn + json)" where
  "oneshot_body E w stdin =
     (case stdin of
        Inl e \<Rightarrow> (w, Inl e)
      | Inr contents \<Rightarrow>
     (case oneshot_parse E (strip contents) of
        Inl e \<Rightarrow> (w, Inl e)
      | Inr (text, is_query) \<Rightarrow>
     if \<not> truthy text then (w, Inl (Exn ValueError ''No text provided''))
     else
       (case oneshot_get_embedding w text is_query of
          (w', Inl e) \<Rightarrow> (w', Inl e)
        | (w', Inr embedding) \<Rightarrow>
            (case py_len embedding of
               Inl e \<Rightarrow> (w', Inl e)
             | Inr n \<Rightarrow>
                 (w', Inr (JObj [(''embedding'', embedding),
                                 (''dimensions'', JInt (int n)),
                                 (''model'', JStr (MODEL_NAME w'))]))))))"

definition oneshot_start :: world where
  "oneshot_start = \<lparr>MODEL_NAME = DEFAULT_MODEL_NAME, model = None, stdout = [], calls = []\<rparr>"

definition oneshot_main :: "env \<Rightarrow> exn + string \<Rightarrow> world \<times> int" where
  "oneshot_main E stdin =
     (case from_pretrained E DEFAULT_MODEL_NAME of
        Inl m \<Rightarrow> (oneshot_start, 1)
      | Inr b \<Rightarrow>
          (case oneshot_body E (oneshot_start\<lparr>model := Some b\<rparr>) stdin of
             (w, Inr result) \<Rightarrow> (print_line w result, 0)
           | (w, Inl e) \<Rightarrow>
               (print_line w (JObj [(''error'', JStr (msg e)), (''embedding'', JNull)]), 1)))"


section \<open>The RAG script (llm_rag.py)\<close>

text \<open>
  What the script takes from outside: \<open>json.loads\<close>, the device that torch reports, the
  loading of tokenizer and model (\<open>Some m\<close>: it raises with text \<open>m\<close>), the tokenizer's
  chat template (\<open>None\<close>: it raises), the tokenizer and model run on the prompt, and the
  two renderings of an object into text that f-strings perform: \<open>format(x, '.1%')\<close> and
  \<open>str(x)\<close>.
\<close>

datatype generation = TokenizeError string | GenerateError string | Generated string

record rag_env =
  rag_json_loads :: "string \<Rightarrow> exn + json"
  best_device :: string
  load_pretrained :: "json \<Rightarrow> string option"
  apply_chat_template :: "(string \<times> string) list \<Rightarrow> string option"
  run_model :: "string \<Rightarrow> generation"
  format_percent :: "json \<Rightarrow> exn + string"
  py_str :: "json \<Rightarrow> string"

record CodeRAGService =
  model_name :: json
  device :: string
  loaded :: bool

datatype rag_event = Load json | Generate string

record rag_world =
  rag_service :: "CodeRAGService option"
  rag_stdout :: "json list"
  rag_stderr :: "json list"
  backend_log :: "rag_event list"

text \<open>An object placed in an f-string without a format: a \<open>str\<close> as it is.\<close>

definition fmt :: "rag_env \<Rightarrow> json \<Rightarrow> string" where
  "fmt E v = (case v of JStr s \<Rightarrow> s | _ \<Rightarrow> py_str E v)"

fun show_nat :: "nat \<Rightarrow> string" where
  "show_nat n =
     (if n < 10 then [''0123456789'' ! n]
      else show_nat (n div 10) @ [''0123456789'' ! (n mod 10)])"

text \<open>\<open>xs[:k]\<close>: a negative \<open>k\<close> counts from the end.\<close>

definition py_take :: "int \<Rightarrow> 'a list \<Rightarrow> 'a list" where
  "py_take k xs = (if k < 0 then take (length xs - nat (- k)) xs else take (nat k) xs)"

text \<open>
  Slicing an object that is neither \<open>str\<close> nor \<open>list\<close> raises (for a \<open>dict\<close> the class
  and text are those of CPython before 3.12).
\<close>

definition not_sliceable :: "json \<Rightarrow> exn" where
  "not_sliceable v =
     (case v of
        JObj _ \<Rightarrow> Exn TypeError (''unhashable type: '' @ quoted ''slice'')
      | _ \<Rightarrow> Exn TypeError (quoted (type_name v) @ '' object is not subscriptable''))"

fun py_slice :: "json \<Rightarrow> int \<Rightarrow> exn + json list" where
  "py_slice (JArr xs) k = Inr (py_take k xs)"
| "py_slice (JStr s) k = Inr (map (\<lambda>c. JStr [c]) (py_take k s))"
| "py_slice v k = Inl (not_sliceable v)"

text \<open>\<open>source_text[:600] + "..."\<close>\<close>

fun truncate_source :: "json \<Rightarrow> exn + json" where
  "truncate_source (JStr s) = Inr (JStr (take 600 s @ ''...''))"
| "truncate_source (JArr xs) =
     Inl (Exn TypeError
            (''can only concatenate list (not '' @ [CHR 0x22] @ ''str'' @ [CHR 0x22] @ '') to list''))"
| "truncate_source v = Inl (not_sliceable v)"

text \<open>\<open>file_path.split('/')[-1]\<close>\<close>

fun base_name :: "json \<Rightarrow> exn + string" where
  "base_name (JStr s) = Inr (rev (takeWhile (\<lambda>c. c \<noteq> CHR ''/'') (rev s)))"
| "base_name v = Inl (no_attribute v ''split'')"

text \<open>The body of the loop of \<open>format_search_context\<close>: the block of result \<open>i\<close>.\<close>

definition render_result :: "rag_env \<Rightarrow> nat \<Rightarrow> json \<Rightarrow> exn + string" where
  "render_result E i result =
     (case py_get result ''file_path'' (JStr ''Unknown file'') of
        Inl e \<Rightarrow> Inl e
      | Inr file_path \<Rightarrow>
     (case py_get result ''node_type'' (JStr ''Unknown'') of
        Inl e \<Rightarrow> Inl e
      | Inr node_type \<Rightarrow>
     (case py_get result ''similarity'' (JInt 0) of
        Inl e \<Rightarrow> Inl e
      | Inr similarity \<Rightarrow>
     (case py_get result ''source_text'' (JStr ''No source available'') of
        Inl e \<Rightarrow> Inl e
      | Inr source_text \<Rightarrow>
     (case py_len source_text of
        Inl e \<Rightarrow> Inl e
      | Inr n \<Rightarrow>
     (case (if n > 600 then truncate_source source_text else Inr source_text) of
        Inl e \<Rightarrow> Inl e
      | Inr source_text' \<Rightarrow>
     (case format_percent E similarity of
        Inl e \<Rightarrow> Inl e
      | Inr percent \<Rightarrow>
     (case base_name file_path of
        Inl e \<Rightarrow> Inl e
      | Inr base \<Rightarrow>
          Inr (''\<newline>Code Snippet '' @ show_nat i @ '' (Relevance: '' @ percent
               @ '') from '' @ base @ '':\<newline>'' @ fmt E source_text' @ ''\<newline>'')))))))))"

text \<open>The loop, with \<open>context_parts\<close> as accumulator and \<open>i\<close> counting from 1.\<close>

fun render_all :: "rag_env \<Rightarrow> nat \<Rightarrow> json list \<Rightarrow> string list \<Rightarrow> exn + string list" where
  "render_all E i [] context_parts = Inr context_parts"
| "render_all E i (result # rest) context_parts =
     (case render_result E i result of
        Inl e \<Rightarrow> Inl e
      | Inr block \<Rightarrow> render_all E (Suc i) rest (context_parts @ [block]))"

text \<open>\<open>sep.join(parts)\<close>\<close>

fun join :: "string \<Rightarrow> string list \<Rightarrow> string" where
  "join sep [] = []"
| "join sep [x] = x"
| "join sep (x # y # ys) = x @ sep @ join sep (y # ys)"

definition format_search_context :: "rag_env \<Rightarrow> json \<Rightarrow> int \<Rightarrow> exn + string" where
  "format_search_context E search_results max_results =
     (if \<not> truthy search_results then Inr ''No search results provided.''
      else
        (case py_slice search_results max_results of
           Inl e \<Rightarrow> Inl e
         | Inr shown \<Rightarrow>
             (case render_all E 1 shown [] of
                Inl e \<Rightarrow> Inl e
              | Inr context_parts \<Rightarrow> Inr (join ''\<newline>'' context_parts))))"


definition status :: "string \<Rightarrow> json" where
  "status message = JObj [(''type'', JStr ''status''), (''message'', JStr message)]"

text \<open>
  \<open>load_model\<close>: nothing when the model is there already; otherwise a status line on
  standard error, the loading itself (recorded in the log), and a second status line.
  The result is the world, the service object and the exception raised, if any.
\<close>

definition load_model ::
  "rag_env \<Rightarrow> rag_world \<Rightarrow> CodeRAGService \<Rightarrow> rag_world \<times> CodeRAGService \<times> exn option" where
  "load_model E w self =
     (if loaded self then (w, self, None)
      else
        (let w1 = w\<lparr>rag_stderr := rag_stderr w @
                       [status (''Loading '' @ fmt E (model_name self)
                                @ ''... (this may take 2-3 minutes)'')],
                     backend_log := backend_log w @ [Load (model_name self)]\<rparr>
         in case load_pretrained E (model_name self) of
              Some m \<Rightarrow> (w1, self, Some (Exn RuntimeError (''Failed to load model: '' @ m)))
            | None \<Rightarrow>
                (w1\<lparr>rag_stderr := rag_stderr w1 @
                       [status (''Model loaded successfully on '' @ device self @ ''!'')]\<rparr>,
                 self\<lparr>loaded := True\<rparr>, None)))"

definition system_prompt :: string where
  "system_prompt =
     ''You are a senior software engineer providing concise code explanations. Your goal is to synthesize search results into a single, coherent explanation.\<newline>''
     @ ''\<newline>''
     @ ''Guidelines:\<newline>''
     @ ''- Write 1-2 paragraphs maximum\<newline>''
     @ ''- Focus on the overall approach and key mechanisms\<newline>''
     @ ''- Explain how the pieces work together as a unified system\<newline>''
     @ ''- Use clear, developer-friendly language\<newline>''
     @ ''- Avoid file-by-file breakdowns - instead provide a unified explanation\<newline>''
     @ ''- Be direct and specific about what the code accomplishes''"

definition dquoted :: "string \<Rightarrow> string" where
  "dquoted s = [CHR 0x22] @ s @ [CHR 0x22]"

definition user_prompt :: "string \<Rightarrow> string \<Rightarrow> string" where
  "user_prompt query context =
     ''Query: '' @ dquoted query @ ''\<newline>''
     @ ''\<newline>''
     @ ''Based on these search results from the codebase, provide a single, unified explanation of how this functionality works:\<newline>''
     @ ''\<newline>''
     @ context @ ''\<newline>''
     @ ''\<newline>''
     @ ''Write a cohesive explanation (1-2 paragraphs) that explains the overall approach and implementation for ''
     @ dquoted query @ '' without breaking it down file-by-file.''"

definition create_messages :: "string \<Rightarrow> string \<Rightarrow> (string \<times> string) list" where
  "create_messages query context =
     [(''system'', system_prompt), (''user'', user_prompt query context)]"

text \<open>
  \<open>generate_explanation\<close>: an exception of the tokenizer call passes as it is, one of
  the generation is wrapped. The run of tokenizer and model is recorded in the log.
\<close>

definition generate_explanation ::
  "rag_env \<Rightarrow> rag_world \<Rightarrow> CodeRAGService \<Rightarrow> json \<Rightarrow> json
     \<Rightarrow> rag_world \<times> CodeRAGService \<times> (exn + string)" where
  "generate_explanation E w self query search_results =
     (case load_model E w self of
        (w1, self1, Some e) \<Rightarrow> (w1, self1, Inl e)
      | (w1, self1, None) \<Rightarrow>
     (case format_search_context E search_results 8 of
        Inl e \<Rightarrow> (w1, self1, Inl e)
      | Inr context \<Rightarrow>
     (let messages = create_messages (fmt E query) context;
          formatted_prompt =
            (case apply_chat_template E messages of
               Some p \<Rightarrow> p
             | None \<Rightarrow>
                 snd (messages ! 0) @ ''\<newline>\<newline>'' @ snd (messages ! 1)
                 @ ''\<newline>\<newline>Assistant:'');
          w2 = w1\<lparr>backend_log := backend_log w1 @ [Generate formatted_prompt]\<rparr>
      in case run_model E formatted_prompt of
           TokenizeError m \<Rightarrow> (w2, self1, Inl (Exn Exception m))
         | GenerateError m \<Rightarrow>
             (w2, self1, Inl (Exn RuntimeError (''Generation failed: '' @ m)))
         | Generated generated_text \<Rightarrow> (w2, self1, Inr (strip generated_text)))))"

text \<open>\<open>rag_service.model_name if rag_service else "unknown"\<close>\<close>

definition service_model :: "rag_world \<Rightarrow> json" where
  "service_model w =
     (case rag_service w of None \<Rightarrow> JStr ''unknown'' | Some s \<Rightarrow> model_name s)"

definition failure :: "rag_world \<Rightarrow> string \<Rightarrow> json" where
  "failure w message =
     JObj [(''success'', JBool False), (''error'', JStr message), (''model'', service_model w)]"

text \<open>
  The block under \<open>if rag_service is None\<close>: the new service is the global before its
  model loads, so it stays there when loading fails.
\<close>

definition initialise ::
  "rag_env \<Rightarrow> rag_world \<Rightarrow> json \<Rightarrow> rag_world \<times> (exn + CodeRAGService)" where
  "initialise E w request_data =
     (case rag_service w of
        Some s \<Rightarrow> (w, Inr s)
      | None \<Rightarrow>
          (case py_get request_data ''model'' (JStr ''Qwen/Qwen2.5-Coder-1.5B-Instruct'') of
             Inl e \<Rightarrow> (w, Inl e)
           | Inr name \<Rightarrow>
               (let s = \<lparr>model_name = name, device = best_device E, loaded = False\<rparr>
                in case load_model E (w\<lparr>rag_service := Some s\<rparr>) s of
                     (w1, s1, Some e) \<Rightarrow> (w1\<lparr>rag_service := Some s1\<rparr>, Inl e)
                   | (w1, s1, None) \<Rightarrow> (w1\<lparr>rag_service := Some s1\<rparr>, Inr s1))))"

text \<open>The \<open>try\<close> block of the script's \<open>process_request\<close>.\<close>

definition rag_request_body :: "rag_env \<Rightarrow> rag_world \<Rightarrow> json \<Rightarrow> rag_world \<times> (exn + json)" where
  "rag_request_body E w request_data =
     (case py_get request_data ''query'' (JStr '''') of
        Inl e \<Rightarrow> (w, Inl e)
      | Inr query \<Rightarrow>
     (case py_get request_data ''search_results'' (JArr []) of
        Inl e \<Rightarrow> (w, Inl e)
      | Inr search_results \<Rightarrow>
     if \<not> truthy query then (w, Inr (failure w ''Query is required''))
     else if \<not> truthy search_results then (w, Inr (failure w ''No search results provided''))
     else
       (case initialise E w request_data of
          (w1, Inl e) \<Rightarrow> (w1, Inl e)
        | (w1, Inr s1) \<Rightarrow>
            (case generate_explanation E w1 s1 query search_results of
               (w2, s2, Inl e) \<Rightarrow> (w2\<lparr>rag_service := Some s2\<rparr>, Inl e)
             | (w2, s2, Inr explanation) \<Rightarrow>
                 (w2\<lparr>rag_service := Some s2\<rparr>,
                  Inr (JObj [(''success'', JBool True),
                             (''explanation'', JStr explanation),
                             (''model'', model_name s2),
                             (''device'', JStr (device s2))]))))))"

definition rag_process_request :: "rag_env \<Rightarrow> rag_world \<Rightarrow> json \<Rightarrow> rag_world \<times> json" where
  "rag_process_request E w request_data =
     (case rag_request_body E w request_data of
        (w', Inr result) \<Rightarrow> (w', result)
      | (w', Inl e) \<Rightarrow> (w', failure w' (msg e)))"

definition rag_print :: "rag_world \<Rightarrow> json \<Rightarrow> rag_world" where
  "rag_print w v = w\<lparr>rag_stdout := rag_stdout w @ [v]\<rparr>"

definition rag_start :: rag_world where
  "rag_start = \<lparr>rag_service = None, rag_stdout = [], rag_stderr = [], backend_log = []\<rparr>"

text \<open>
  The script's \<open>main\<close>, from process start: the final world and the exit code. Standard
  input is the exception that reading it raises, or the text read.
\<close>

definition rag_main :: "rag_env \<Rightarrow> exn + string \<Rightarrow> rag_world \<times> int" where
  "rag_main E stdin =
     (case (case stdin of Inl e \<Rightarrow> Inl e | Inr contents \<Rightarrow> rag_json_loads E contents) of
        Inr input_data \<Rightarrow>
          (case rag_process_request E rag_start input_data of
             (w, result) \<Rightarrow> (rag_print w result, 0))
      | Inl e \<Rightarrow>
          (if cls e = JSONDecodeError then
             (rag_print rag_start
                (JObj [(''success'', JBool False),
                       (''error'', JStr (''Invalid JSON input: '' @ msg e)),
                       (''model'', JStr ''unknown'')]), 1)
           else
             (rag_print rag_start (failure rag_start (''Unexpected error: '' @ msg e)), 1)))"


section \<open>Vocabulary of the statements\<close>

text \<open>
  Reading a key of a printed document, the shapes of the documents the streaming worker
  prints, a world with output and call log put in front (the responses of the worker do
  not depend on either), and a sample backend and \<open>json.loads\<close> on which the statements
  are evaluated: the backend returns a vector of three floats for every text, and the
  sample \<open>json.loads\<close> knows a handful of documents and rejects every other input.
\<close>

fun field :: "json \<Rightarrow> string \<Rightarrow> json option" where
  "field (JObj kv) k = map_of kv k"
| "field v k = None"

fun is_dict :: "json \<Rightarrow> bool" where
  "is_dict (JObj kv) = True"
| "is_dict v = False"

definition ready :: json where
  "ready = JObj [(''type'', JStr ''ready'')]"

definition error_result :: "json \<Rightarrow> string \<Rightarrow> json" where
  "error_result i m = JObj [(''type'', JStr ''result''), (''id'', i), (''error'', JStr m)]"


definition sample_backend :: backend where
  "sample_backend text =
     Inr (JArr [JFloat (Finite False 1 (- 1)), JFloat (Finite False 1 (- 2)),
                JFloat (Finite False 3 (- 3))])"

definition sample_loads :: "string \<Rightarrow> exn + json" where
  \<open>sample_loads s =
     (if s = ''{"id":1,"text":"a"}'' then Inr (JObj [(''id'', JInt 1), (''text'', JStr ''a'')])
      else if s = ''{"id":2,"text":"b"}'' then Inr (JObj [(''id'', JInt 2), (''text'', JStr ''b'')])
      else if s = ''{"id":3,"text":"a","is_query":true}'' then
        Inr (JObj [(''id'', JInt 3), (''text'', JStr ''a''), (''is_query'', JBool True)])
      else if s = ''{"id":3,"text":"a"}'' then
        Inr (JObj [(''id'', JInt 3), (''text'', JStr ''a'')])
      else if s = ''{"text":""}'' then Inr (JObj [(''text'', JStr '''')])
      else if s = ''[1]'' then Inr (JArr [JInt 1])
      else Inl (Exn JSONDecodeError
                 ''Expecting property name enclosed in double quotes: line 1 column 2 (char 1)''))\<close>

definition sample_env :: env where
  "sample_env = \<lparr>json_loads = sample_loads, from_pretrained = (\<lambda>name. Inr sample_backend)\<rparr>"

definition failing_env :: env where
  "failing_env = \<lparr>json_loads = sample_loads, from_pretrained = (\<lambda>name. Inl ''no such model'')\<rparr>"

definition loaded_world :: world where
  "loaded_world = print_line ((start [])\<lparr>model := Some sample_backend\<rparr>) ready"


text \<open>
  The search result of the specification's data model, the \<open>dict\<close> that carries it, and
  context formatting in the specification's words: the first eight results in input
  order, each a numbered block with the similarity as a percentage, the base name of the
  file and the source text cut to 600 characters with an ellipsis; a fixed sentence for
  the empty sequence. The layout of a block is the script's.
\<close>

record SearchResult =
  file_path :: string
  node_type :: string
  similarity :: pyfloat
  source_text :: string

definition to_json :: "SearchResult \<Rightarrow> json" where
  "to_json r =
     JObj [(''file_path'', JStr (file_path r)), (''node_type'', JStr (node_type r)),
           (''similarity'', JFloat (similarity r)), (''source_text'', JStr (source_text r))]"

definition spec_truncate :: "string \<Rightarrow> string" where
  "spec_truncate s = (if length s > 600 then take 600 s @ ''...'' else s)"

definition spec_base :: "string \<Rightarrow> string" where
  "spec_base s = rev (takeWhile (\<lambda>c. c \<noteq> CHR ''/'') (rev s))"

definition spec_block :: "(pyfloat \<Rightarrow> string) \<Rightarrow> nat \<times> SearchResult \<Rightarrow> string" where
  "spec_block percent ir =
     ''\<newline>Code Snippet '' @ show_nat (fst ir) @ '' (Relevance: '' @ percent (similarity (snd ir))
     @ '') from '' @ spec_base (file_path (snd ir)) @ '':\<newline>''
     @ spec_truncate (source_text (snd ir)) @ ''\<newline>''"

definition spec_context :: "(pyfloat \<Rightarrow> string) \<Rightarrow> SearchResult list \<Rightarrow> string" where
  "spec_context percent rs =
     (if rs = [] then ''No search results provided.''
      else join ''\<newline>'' (map (spec_block percent) (enumerate 1 (take 8 rs))))"

text \<open>A sample environment of the RAG script.\<close>

definition sample_percent :: "pyfloat \<Rightarrow> string" where
  "sample_percent f =
     (if f = Finite False 1 (- 1) then ''50.0%''
      else if f = Finite False 3 (- 2) then ''75.0%''
      else ''0.0%'')"

definition sample_rag_loads :: "string \<Rightarrow> exn + json" where
  \<open>sample_rag_loads s =
     (if s = ''{"query": ""}'' then Inr (JObj [(''query'', JStr '''')])
      else if s = ''{"query": "how"}'' then Inr (JObj [(''query'', JStr ''how'')])
      else if s = ''{"query": "how", "search_results": []}'' then
        Inr (JObj [(''query'', JStr ''how''), (''search_results'', JArr [])])
      else Inl (Exn JSONDecodeError ''Expecting value: line 1 column 1 (char 0)''))\<close>

definition sample_rag_env :: rag_env where
  "sample_rag_env =
     \<lparr>rag_json_loads = sample_rag_loads,
      best_device = ''cpu'',
      load_pretrained = (\<lambda>name. None),
      apply_chat_template = (\<lambda>messages. None),
      run_model = (\<lambda>prompt. Generated '' It parses the request. ''),
      format_percent =
        (\<lambda>v. case v of
               JFloat f \<Rightarrow> Inr (sample_percent f)
             | _ \<Rightarrow> Inl (Exn TypeError ''unsupported format string'')),
      py_str = type_name\<rparr>"

definition long_result :: SearchResult where
  "long_result =
     \<lparr>file_path = ''src/core/indexer.ts'', node_type = ''function'',
      similarity = Finite False 1 (- 1), source_text = replicate 700 CHR ''x''\<rparr>"

definition short_result :: SearchResult where
  "short_result =
     \<lparr>file_path = ''README.md'', node_type = ''file'',
      similarity = Finite False 3 (- 2), source_text = replicate 500 CHR ''y''\<rparr>"

text \<open>
  A line of 1200 opening brackets, on which \<open>json.loads\<close> raises \<open>RecursionError\<close> (a
  \<open>RuntimeError\<close>) instead of \<open>JSONDecodeError\<close>, and a sample \<open>json.loads\<close> that does so.
\<close>

definition deep_line :: string where
  "deep_line = replicate 1200 CHR ''['' @ ''\<newline>''"

definition deep_loads :: "string \<Rightarrow> exn + json" where
  "deep_loads s =
     (if s = replicate 1200 CHR ''['' then
        Inl (Exn RuntimeError
               ''maximum recursion depth exceeded while decoding a JSON array from a unicode string'')
      else sample_loads s)"

definition deep_env :: env where
  "deep_env = \<lparr>json_loads = deep_loads, from_pretrained = (\<lambda>name. Inr sample_backend)\<rparr>"

section \<open>Properties of the streaming worker\<close>

subsection \<open>Auxiliary facts\<close>


lemma print_line_sel [simp]:
  "MODEL_NAME (print_line w v) = MODEL_NAME w"
  "model (print_line w v) = model w"
  "stdout (print_line w v) = stdout w @ [v]"
  "calls (print_line w v) = calls w"
  by (simp_all add: print_line_def)








lemma serve_append: "serve E w (xs @ ys) = serve E (serve E w xs) ys"
  by (induction xs arbitrary: w) simp_all

text \<open>What a request leaves alone.\<close>

lemma get_embedding_frame:
  "get_embedding w t q = (w', r) \<Longrightarrow>
     MODEL_NAME w' = MODEL_NAME w \<and> model w' = model w \<and> stdout w' = stdout w"
  by (auto simp: get_embedding_def Let_def split: option.splits sum.splits)

lemma request_body_frame:
  "request_body w v = (w', r) \<Longrightarrow>
     MODEL_NAME w' = MODEL_NAME w \<and> model w' = model w \<and> stdout w' = stdout w"
  by (auto simp: request_body_def split: sum.splits prod.splits if_splits dest: get_embedding_frame)

lemma request_body_type:
  "request_body w v = (w', Inr r) \<Longrightarrow> field r ''type'' = Some (JStr ''result'')"
  by (auto simp: request_body_def split: sum.splits prod.splits if_splits)

lemma py_get_dict: "py_get v k d = Inr x \<Longrightarrow> is_dict v"
  by (cases v) simp_all

lemma py_get_not_dict: "\<not> is_dict v \<Longrightarrow> py_get v k d = Inl (no_attribute v ''get'')"
  by (cases v) simp_all

lemma process_request_None:
  "process_request w v = (w', None) \<Longrightarrow>
     \<exists>r. stdout w' = stdout w @ [r] \<and> field r ''type'' = Some (JStr ''result'')
         \<and> MODEL_NAME w' = MODEL_NAME w \<and> model w' = model w"
  by (auto simp: process_request_def split: sum.splits prod.splits
           dest: request_body_frame request_body_type)

lemma process_request_Some:
  "process_request w v = (w', Some e) \<Longrightarrow>
     stdout w' = stdout w \<and> MODEL_NAME w' = MODEL_NAME w \<and> model w' = model w"
  by (auto simp: process_request_def split: sum.splits prod.splits
           dest: request_body_frame)

lemma handle_line_blank: "strip raw = [] \<Longrightarrow> handle_line E w raw = w"
  by (simp add: handle_line_def)

lemma handle_line_one:
  assumes "strip raw \<noteq> []"
  shows "\<exists>r. stdout (handle_line E w raw) = stdout w @ [r]
            \<and> field r ''type'' = Some (JStr ''result'')
            \<and> MODEL_NAME (handle_line E w raw) = MODEL_NAME w
            \<and> model (handle_line E w raw) = model w"
proof (cases "json_loads E (strip raw)")
  case (Inl e)
  with assms show ?thesis
    by (simp add: handle_line_def report_def)
next
  case (Inr v)
  obtain w' r where pr: "process_request w v = (w', r)"
    by (cases "process_request w v")
  show ?thesis
  proof (cases r)
    case None
    with pr Inr assms process_request_None [of w v w'] show ?thesis
      by (auto simp: handle_line_def)
  next
    case (Some e)
    with pr Inr assms process_request_Some [of w v w' e] show ?thesis
      by (auto simp: handle_line_def report_def)
  qed
qed

lemma handle_line_globals:
  "MODEL_NAME (handle_line E w raw) = MODEL_NAME w \<and> model (handle_line E w raw) = model w"
  using handle_line_one [of raw E w] handle_line_blank [of raw E w]
  by (cases "strip raw = []") auto

lemma serve_globals:
  "MODEL_NAME (serve E w ls) = MODEL_NAME w \<and> model (serve E w ls) = model w"
  by (induction ls arbitrary: w) (simp_all add: handle_line_globals)


lemma serve_results:
  "\<exists>rs. stdout (serve E w ls) = stdout w @ rs
        \<and> (\<forall>r \<in> set rs. field r ''type'' = Some (JStr ''result''))"
proof (induction ls arbitrary: w)
  case Nil
  show ?case by simp
next
  case (Cons l ls)
  obtain rs where rs: "stdout (serve E (handle_line E w l) ls) = stdout (handle_line E w l) @ rs"
      "\<forall>r \<in> set rs. field r ''type'' = Some (JStr ''result'')"
    using Cons [of "handle_line E w l"] by blast
  show ?case
  proof (cases "strip l = []")
    case True
    then show ?thesis using rs by (auto simp: handle_line_blank)
  next
    case False
    then obtain r where "stdout (handle_line E w l) = stdout w @ [r]"
       "field r ''type'' = Some (JStr ''result'')"
      using handle_line_one by blast
    then show ?thesis using rs by auto
  qed
qed






lemma strip_sample1: \<open>strip ''{bad json\<newline>'' = ''{bad json''\<close>
  by (simp add: strip_def is_space_def)

lemma main_loaded:
  "from_pretrained E (MODEL_NAME (start argv)) = Inr b \<Longrightarrow>
     main E argv ls = (serve E (print_line ((start argv)\<lparr>model := Some b\<rparr>) ready) ls, 0)"
  by (simp add: main_def setup_model_def ready_def)

lemma main_failed:
  "from_pretrained E (MODEL_NAME (start argv)) = Inl m \<Longrightarrow>
     main E argv ls =
       (print_line (start argv)
          (JObj [(''type'', JStr ''error''), (''error'', JStr (''Failed to load model: '' @ m))]), 1)"
  by (simp add: main_def setup_model_def)

lemma handle_line_invalid:
  "strip raw \<noteq> [] \<Longrightarrow> json_loads E (strip raw) = Inl e \<Longrightarrow> cls e = JSONDecodeError \<Longrightarrow>
     handle_line E w raw = print_line w (error_result JNull (''Invalid JSON: '' @ msg e))"
  by (simp add: handle_line_def report_def error_result_def)

lemma serve_snoc: "serve E w (pre @ [raw]) = handle_line E (serve E w pre) raw"
  by (simp add: serve_append)

lemma sample_loads_bad: \<open>sample_loads ''{bad json'' =
   Inl (Exn JSONDecodeError
          ''Expecting property name enclosed in double quotes: line 1 column 2 (char 1)'')\<close>
  by (simp add: sample_loads_def)


lemma sample_loads_2: \<open>sample_loads ''{"id":2,"text":"b"}'' = Inr (JObj [(''id'', JInt 2), (''text'', JStr ''b'')])\<close>
  by (simp add: sample_loads_def)

lemma sample_loads_arr: \<open>sample_loads ''[1]'' = Inr (JArr [JInt 1])\<close>
  by (simp add: sample_loads_def)


lemma strip_sample_2: \<open>strip ''{"id":2,"text":"b"}\<newline>'' = ''{"id":2,"text":"b"}''\<close>
  by (simp add: strip_def is_space_def)

lemma strip_sample_arr: \<open>strip ''[1]\<newline>'' = ''[1]''\<close>
  by (simp add: strip_def is_space_def)

lemma sample_env_sel [simp]:
  "json_loads sample_env = sample_loads"
  "from_pretrained sample_env = (\<lambda>name. Inr sample_backend)"
  by (simp_all add: sample_env_def)

lemma process_request_not_dict:
  "\<not> is_dict v \<Longrightarrow> process_request w v = (w, Some (no_attribute v ''get''))"
  by (simp add: process_request_def request_body_def py_get_not_dict)

lemma cls_no_attribute [simp]: "cls (no_attribute v a) = AttributeError"
  by (simp add: no_attribute_def)

lemma handle_line_not_dict:
  "strip raw \<noteq> [] \<Longrightarrow> json_loads E (strip raw) = Inr v \<Longrightarrow> \<not> is_dict v \<Longrightarrow>
     handle_line E w raw =
       print_line w (error_result JNull (''Request processing error: '' @ msg (no_attribute v ''get'')))"
  by (simp add: handle_line_def process_request_not_dict report_def error_result_def)

lemma field_ready [simp]: "field ready ''type'' = Some (JStr ''ready'')"
  by (simp add: ready_def)

lemma no_ready_among_results:
  "\<forall>r \<in> set rs. field r ''type'' = Some (JStr ''result'') \<Longrightarrow> filter (\<lambda>r. r = ready) rs = []"
  by (induction rs) auto

lemma failing_env_sel [simp]:
  "json_loads failing_env = sample_loads"
  "from_pretrained failing_env = (\<lambda>name. Inl ''no such model'')"
  by (simp_all add: failing_env_def)









text \<open>The flag \<open>is_query\<close> is read and then ignored.\<close>

lemma get_embedding_is_query: "get_embedding w text q = get_embedding w text q'"
  by (simp add: get_embedding_def)

lemma oneshot_get_embedding_is_query:
  "oneshot_get_embedding w text q = oneshot_get_embedding w text q'"
  by (simp add: oneshot_get_embedding_def)

lemma request_body_is_query:
  assumes "\<forall>k. k \<noteq> ''is_query'' \<longrightarrow> map_of kv k = map_of kv' k"
  shows "request_body w (JObj kv) = request_body w (JObj kv')"
proof -
  have "map_of kv ''id'' = map_of kv' ''id''" "map_of kv ''text'' = map_of kv' ''text''"
    using assms by simp_all
  then show ?thesis
    by (simp add: request_body_def get_embedding_def)
qed

lemma process_request_is_query:
  assumes "\<forall>k. k \<noteq> ''is_query'' \<longrightarrow> map_of kv k = map_of kv' k"
  shows "process_request w (JObj kv) = process_request w (JObj kv')"
proof -
  have "map_of kv ''id'' = map_of kv' ''id''"
    using assms by simp
  then show ?thesis
    by (simp add: process_request_def request_body_is_query [OF assms] split: prod.split sum.split)
qed

lemma oneshot_body_is_query:
  assumes "\<forall>k. k \<noteq> ''is_query'' \<longrightarrow> map_of kv k = map_of kv' k"
    and "json_loads E (strip s) = Inr (JObj kv)" and "json_loads E (strip s') = Inr (JObj kv')"
  shows "oneshot_body E w (Inr s) = oneshot_body E w (Inr s')"
proof -
  have "map_of kv ''text'' = map_of kv' ''text''"
    using assms(1) by simp
  then show ?thesis
    using assms(2,3)
    by (simp add: oneshot_body_def oneshot_parse_def oneshot_get_embedding_def)
qed

lemma sample_loads_3q: \<open>sample_loads ''{"id":3,"text":"a","is_query":true}'' =
    Inr (JObj [(''id'', JInt 3), (''text'', JStr ''a''), (''is_query'', JBool True)])\<close>
  by (simp add: sample_loads_def)

lemma sample_loads_3: \<open>sample_loads ''{"id":3,"text":"a"}'' =
    Inr (JObj [(''id'', JInt 3), (''text'', JStr ''a'')])\<close>
  by (simp add: sample_loads_def)

lemma strip_sample_3q: \<open>strip ''{"id":3,"text":"a","is_query":true}\<newline>'' = ''{"id":3,"text":"a","is_query":true}''\<close>
  by (simp add: strip_def is_space_def)

lemma strip_sample_3: \<open>strip ''{"id":3,"text":"a"}\<newline>'' = ''{"id":3,"text":"a"}''\<close>
  by (simp add: strip_def is_space_def)

text \<open>A request without text.\<close>

lemma process_request_no_text:
  assumes "map_of kv ''text'' = None \<or> (\<exists>t. map_of kv ''text'' = Some t \<and> \<not> truthy t)"
  shows "process_request w (JObj kv) =
           (print_line w
              (error_result (case map_of kv ''id'' of None \<Rightarrow> JNull | Some i \<Rightarrow> i)
                 ''No text provided''), None)"
  using assms
  by (auto simp: process_request_def request_body_def error_result_def)

lemma sample_loads_no_text: \<open>sample_loads ''{"text":""}'' = Inr (JObj [(''text'', JStr '''')])\<close>
  by (simp add: sample_loads_def)

lemma strip_sample_no_text: \<open>strip ''{"text":""}\<newline>'' = ''{"text":""}''\<close>
  by (simp add: strip_def is_space_def)

lemma main_sample_no_text:
  \<open>stdout (fst (main sample_env [] [''{"text":""}\<newline>''])) =
     [ready, error_result JNull ''No text provided'']\<close>
proof -
  have "from_pretrained sample_env (MODEL_NAME (start [])) = Inr sample_backend"
    by simp
  from main_loaded [OF this] show ?thesis
    using process_request_no_text [of "[(''text'', JStr '''')]"]
    by (simp add: handle_line_def strip_sample_no_text sample_loads_no_text start_def)
qed

text \<open>The one-shot embedding script.\<close>

lemma oneshot_get_embedding_stdout:
  "oneshot_get_embedding w t q = (w', r) \<Longrightarrow> stdout w' = stdout w"
  by (auto simp: oneshot_get_embedding_def Let_def split: option.splits sum.splits)

lemma oneshot_body_stdout:
  "oneshot_body E w stdin = (w', r) \<Longrightarrow> stdout w' = stdout w"
  by (auto simp: oneshot_body_def split: sum.splits prod.splits if_splits
           dest!: oneshot_get_embedding_stdout)

lemma oneshot_body_result:
  "oneshot_body E w stdin = (w', Inr r) \<Longrightarrow> field r ''error'' = None"
  by (auto simp: oneshot_body_def split: sum.splits prod.splits if_splits)

lemma oneshot_main_loaded:
  assumes "from_pretrained E DEFAULT_MODEL_NAME = Inr b"
  shows "\<exists>r. stdout (fst (oneshot_main E stdin)) = [r]
            \<and> (field r ''error'' = None \<and> snd (oneshot_main E stdin) = 0
                \<or> field r ''error'' \<noteq> None \<and> snd (oneshot_main E stdin) = 1)"
proof -
  obtain w' r where b: "oneshot_body E (oneshot_start\<lparr>model := Some b\<rparr>) stdin = (w', r)"
    by (cases "oneshot_body E (oneshot_start\<lparr>model := Some b\<rparr>) stdin")
  have so: "stdout w' = []"
    using oneshot_body_stdout [OF b] by (simp add: oneshot_start_def)
  show ?thesis
  proof (cases r)
    case (Inl e)
    then show ?thesis using assms b so by (simp add: oneshot_main_def)
  next
    case (Inr res)
    then have "field res ''error'' = None"
      using b oneshot_body_result by blast
    then show ?thesis using assms b so Inr by (simp add: oneshot_main_def)
  qed
qed

lemma oneshot_main_plain_text:
  assumes "from_pretrained E DEFAULT_MODEL_NAME = Inr b"
    and "json_loads E (strip s) = Inl e" and "cls e = JSONDecodeError"
    and "strip s \<noteq> []" and "b (JStr (strip s)) = Inr (JArr xs)"
  shows "oneshot_main E (Inr s) =
           (print_line (oneshot_start\<lparr>model := Some b, calls := [JStr (strip s)]\<rparr>)
              (JObj [(''embedding'', JArr xs), (''dimensions'', JInt (int (length xs))),
                     (''model'', JStr DEFAULT_MODEL_NAME)]), 0)"
  using assms
  by (simp add: oneshot_main_def oneshot_body_def oneshot_parse_def oneshot_get_embedding_def
        oneshot_start_def)

lemma oneshot_main_not_loaded:
  "from_pretrained E DEFAULT_MODEL_NAME = Inl m \<Longrightarrow> oneshot_main E stdin = (oneshot_start, 1)"
  by (simp add: oneshot_main_def)

text \<open>A line on which \<open>json.loads\<close> raises.\<close>

lemma handle_line_other_error:
  "strip raw \<noteq> [] \<Longrightarrow> json_loads E (strip raw) = Inl e \<Longrightarrow> cls e \<noteq> JSONDecodeError \<Longrightarrow>
     handle_line E w raw = print_line w (error_result JNull (''Request processing error: '' @ msg e))"
  by (simp add: handle_line_def report_def error_result_def)

lemma strip_replicate_line:
  assumes "\<not> is_space c" and "0 < n"
  shows "strip (replicate n c @ ''\<newline>'') = replicate n c"
proof -
  obtain k where n: "n = Suc k"
    using assms(2) by (cases n) auto
  have sp: "is_space CHR ''\<newline>''"
    by (simp add: is_space_def)
  have a: "dropWhile is_space (replicate n c @ ''\<newline>'') = replicate n c @ ''\<newline>''"
    using assms(1) n by simp
  have "rev (replicate n c @ ''\<newline>'') = CHR ''\<newline>'' # replicate n c"
    by simp
  then have b: "dropWhile is_space (rev (replicate n c @ ''\<newline>'')) = replicate n c"
    using assms(1) sp n by simp
  show ?thesis
    by (simp only: strip_def a b rev_replicate)
qed

lemma strip_deep_line: "strip deep_line = replicate 1200 CHR ''[''"
  unfolding deep_line_def
  by (rule strip_replicate_line) (simp_all add: is_space_def)

lemma deep_env_sel [simp]:
  "json_loads deep_env = deep_loads"
  "from_pretrained deep_env = (\<lambda>name. Inr sample_backend)"
  by (simp_all add: deep_env_def)

lemma deep_loads_deep:
  "deep_loads (replicate 1200 CHR ''['') =
     Inl (Exn RuntimeError
            ''maximum recursion depth exceeded while decoding a JSON array from a unicode string'')"
  by (simp add: deep_loads_def)

lemma replicate_not_bad: \<open>''{bad json'' \<noteq> replicate 1200 CHR ''[''\<close>
proof
  assume \<open>''{bad json'' = replicate 1200 CHR ''[''\<close>
  then have \<open>length ''{bad json'' = length (replicate 1200 CHR ''['')\<close>
    by (rule arg_cong)
  then show False by simp
qed

lemma deep_loads_bad:
  \<open>deep_loads ''{bad json'' =
     Inl (Exn JSONDecodeError
            ''Expecting property name enclosed in double quotes: line 1 column 2 (char 1)'')\<close>
  using replicate_not_bad by (simp add: deep_loads_def sample_loads_bad)

lemma main_deep_line:
  "stdout (fst (main deep_env [] [deep_line])) =
     [ready,
      error_result JNull
        (''Request processing error: '' @
         ''maximum recursion depth exceeded while decoding a JSON array from a unicode string'')]"
proof -
  have ld: "from_pretrained deep_env (MODEL_NAME (start [])) = Inr sample_backend"
    by simp
  have ne: "strip deep_line \<noteq> []"
    by (simp add: strip_deep_line)
  have lo: "json_loads deep_env (strip deep_line) =
      Inl (Exn RuntimeError
            ''maximum recursion depth exceeded while decoding a JSON array from a unicode string'')"
    by (simp only: strip_deep_line deep_env_sel deep_loads_deep)
  have h: "handle_line deep_env (print_line ((start [])\<lparr>model := Some sample_backend\<rparr>) ready) deep_line
      = print_line (print_line ((start [])\<lparr>model := Some sample_backend\<rparr>) ready)
          (error_result JNull
            (''Request processing error: '' @
             msg (Exn RuntimeError
               ''maximum recursion depth exceeded while decoding a JSON array from a unicode string'')))"
    using ne lo by (rule handle_line_other_error) simp
  have "fst (main deep_env [] [deep_line]) =
      print_line (print_line ((start [])\<lparr>model := Some sample_backend\<rparr>) ready)
          (error_result JNull
            (''Request processing error: '' @
             msg (Exn RuntimeError
               ''maximum recursion depth exceeded while decoding a JSON array from a unicode string'')))"
    by (simp only: main_loaded [OF ld] fst_conv serve.simps h)
  then show ?thesis
    by (simp add: start_def)
qed

section \<open>Properties of the RAG script\<close>

subsection \<open>Auxiliary facts\<close>

lemma render_result_to_json:
  assumes "format_percent E (JFloat (similarity r)) = Inr (percent (similarity r))"
  shows "render_result E i (to_json r) = Inr (spec_block percent (i, r))"
  using assms
  by (simp add: render_result_def to_json_def spec_block_def spec_truncate_def spec_base_def
        fmt_def)

lemma render_all_to_json:
  assumes "\<forall>f. format_percent E (JFloat f) = Inr (percent f)"
  shows "render_all E i (map to_json rs) context_parts
           = Inr (context_parts @ map (spec_block percent) (enumerate i rs))"
proof (induction rs arbitrary: i context_parts)
  case Nil
  show ?case by simp
next
  case (Cons r rs)
  have "render_result E i (to_json r) = Inr (spec_block percent (i, r))"
    using assms by (simp add: render_result_to_json)
  then show ?case
    using Cons [of "Suc i" "context_parts @ [spec_block percent (i, r)]"] by simp
qed

lemma py_take_nat: "py_take (int n) xs = take n xs"
  by (simp add: py_take_def)

lemma format_search_context_to_json:
  assumes "\<forall>f. format_percent E (JFloat f) = Inr (percent f)"
  shows "format_search_context E (JArr (map to_json rs)) 8 = Inr (spec_context percent rs)"
proof (cases "rs = []")
  case True
  then show ?thesis
    by (simp add: format_search_context_def spec_context_def)
next
  case False
  have "py_take 8 (map to_json rs) = map to_json (take 8 rs)"
    using py_take_nat [of 8 "map to_json rs"] by (simp add: take_map)
  then show ?thesis
    using False render_all_to_json [OF assms, of 1 "take 8 rs" "[]"]
    by (simp add: format_search_context_def spec_context_def)
qed

lemma spec_context_first_eight: "spec_context percent rs = spec_context percent (take 8 rs)"
  by (simp add: spec_context_def)

lemma sample_rag_env_sel [simp]:
  "rag_json_loads sample_rag_env = sample_rag_loads"
  "format_percent sample_rag_env (JFloat f) = Inr (sample_percent f)"
  "best_device sample_rag_env = ''cpu''"
  by (simp_all add: sample_rag_env_def)

lemma show_nat_1: "show_nat (Suc 0) = ''1''"
  by code_simp

lemma show_nat_2: "show_nat (Suc (Suc 0)) = ''2''"
  by code_simp

lemma sample_block_1:
  "spec_block sample_percent (Suc 0, long_result) =
     ''\<newline>Code Snippet 1 (Relevance: 50.0%) from indexer.ts:\<newline>''
     @ replicate 600 CHR ''x'' @ ''...\<newline>''"
  by (simp add: spec_block_def spec_truncate_def spec_base_def long_result_def
        sample_percent_def show_nat_1 del: show_nat.simps)

lemma sample_block_2:
  "spec_block sample_percent (Suc (Suc 0), short_result) =
     ''\<newline>Code Snippet 2 (Relevance: 75.0%) from README.md:\<newline>''
     @ replicate 500 CHR ''y'' @ ''\<newline>''"
  by (simp add: spec_block_def spec_truncate_def spec_base_def short_result_def
        sample_percent_def show_nat_2 del: show_nat.simps)

lemma sample_context:
  "spec_context sample_percent [long_result, short_result] =
     (''\<newline>Code Snippet 1 (Relevance: 50.0%) from indexer.ts:\<newline>''
      @ replicate 600 CHR ''x'' @ ''...\<newline>'')
     @ ''\<newline>''
     @ (''\<newline>Code Snippet 2 (Relevance: 75.0%) from README.md:\<newline>''
        @ replicate 500 CHR ''y'' @ ''\<newline>'')"
proof -
  have "spec_context sample_percent [long_result, short_result] =
      spec_block sample_percent (Suc 0, long_result) @ ''\<newline>''
      @ spec_block sample_percent (Suc (Suc 0), short_result)"
    by (simp add: spec_context_def)
  then show ?thesis
    by (simp only: sample_block_1 sample_block_2)
qed

text \<open>Requests that are turned down before the backend is reached.\<close>

lemma rag_no_query:
  assumes "map_of kv ''query'' = None \<or> (\<exists>q. map_of kv ''query'' = Some q \<and> \<not> truthy q)"
  shows "rag_process_request E w (JObj kv) = (w, failure w ''Query is required'')"
  using assms
  by (auto simp: rag_process_request_def rag_request_body_def)

lemma rag_no_results:
  assumes "map_of kv ''query'' = Some q" and "truthy q"
    and "map_of kv ''search_results'' = None
         \<or> (\<exists>r. map_of kv ''search_results'' = Some r \<and> \<not> truthy r)"
  shows "rag_process_request E w (JObj kv) = (w, failure w ''No search results provided'')"
  using assms
  by (auto simp: rag_process_request_def rag_request_body_def)

lemma failure_start [simp]:
  "failure rag_start m = JObj [(''success'', JBool False), (''error'', JStr m), (''model'', JStr ''unknown'')]"
  by (simp add: failure_def service_model_def rag_start_def)

lemma rag_main_parsed:
  "rag_json_loads E s = Inr v \<Longrightarrow>
     rag_main E (Inr s) =
       (rag_print (fst (rag_process_request E rag_start v)) (snd (rag_process_request E rag_start v)), 0)"
  by (simp add: rag_main_def split: prod.split)

text \<open>The script's \<open>process_request\<close> prints nothing itself.\<close>

lemma load_model_stdout:
  "load_model E w s = (w', s', r) \<Longrightarrow> rag_stdout w' = rag_stdout w"
  by (auto simp: load_model_def Let_def split: if_splits option.splits)

lemma generate_explanation_stdout:
  "generate_explanation E w s q rs = (w', s', r) \<Longrightarrow> rag_stdout w' = rag_stdout w"
  by (auto simp: generate_explanation_def Let_def
           split: prod.splits option.splits sum.splits generation.splits
           dest: load_model_stdout)

lemma initialise_stdout:
  "initialise E w v = (w', r) \<Longrightarrow> rag_stdout w' = rag_stdout w"
  by (auto simp: initialise_def Let_def split: sum.splits option.splits prod.splits
           dest!: load_model_stdout)

lemma rag_request_body_stdout:
  "rag_request_body E w v = (w', r) \<Longrightarrow> rag_stdout w' = rag_stdout w"
  by (auto simp: rag_request_body_def
           split: sum.splits if_splits prod.splits
           dest!: initialise_stdout generate_explanation_stdout)

lemma rag_process_request_stdout:
  "rag_stdout (fst (rag_process_request E w v)) = rag_stdout w"
  by (auto simp: rag_process_request_def split: prod.splits sum.splits
           dest: rag_request_body_stdout)

lemma rag_main_one_response: "length (rag_stdout (fst (rag_main E stdin))) = 1"
  by (auto simp: rag_main_def rag_print_def rag_process_request_stdout rag_start_def
           split: sum.splits prod.splits
           dest: arg_cong [where f = "\<lambda>p. rag_stdout (fst p)"])

lemma sample_rag_loads_empty_query:
  \<open>sample_rag_loads ''{"query": ""}'' = Inr (JObj [(''query'', JStr '''')])\<close>
  by (simp add: sample_rag_loads_def)

lemma sample_rag_loads_no_results:
  \<open>sample_rag_loads ''{"query": "how"}'' = Inr (JObj [(''query'', JStr ''how'')])\<close>
  by (simp add: sample_rag_loads_def)

lemma sample_rag_loads_empty_results:
  \<open>sample_rag_loads ''{"query": "how", "search_results": []}'' =
     Inr (JObj [(''query'', JStr ''how''), (''search_results'', JArr [])])\<close>
  by (simp add: sample_rag_loads_def)

lemma sample_rag_loads_bad:
  \<open>sample_rag_loads ''{bad json'' = Inl (Exn JSONDecodeError ''Expecting value: line 1 column 1 (char 0)'')\<close>
  by (simp add: sample_rag_loads_def)

lemma rag_main_exit:
  "snd (rag_main E stdin) =
     (if (case stdin of Inl e \<Rightarrow> True | Inr s \<Rightarrow> isl (rag_json_loads E s)) then 1 else 0)"
  by (auto simp: rag_main_def split: sum.splits prod.splits)

lemma rag_main_empty_query:
  \<open>rag_main sample_rag_env (Inr ''{"query": ""}'') =
     (rag_print rag_start
        (JObj [(''success'', JBool False), (''error'', JStr ''Query is required''),
               (''model'', JStr ''unknown'')]), 0)\<close>
  using rag_main_parsed [of sample_rag_env \<open>''{"query": ""}''\<close> "JObj [(''query'', JStr '''')]"]
    rag_no_query [of "[(''query'', JStr '''')]" sample_rag_env rag_start]
  by (simp add: sample_rag_loads_empty_query)

section \<open>The claims\<close>



text \<open>
  C2, as stated, fails: on a line of 1200 opening brackets \<open>json.loads\<close> raises
  \<open>RecursionError\<close>, which the loop's second \<open>except\<close> clause reports; the error text begins
  \<open>Request processing error: \<close>, not \<open>Invalid JSON: \<close>.
\<close>

theorem invalid_json_prefix_counterexample:
  "stdout (fst (main deep_env [] [deep_line])) =
     [ready,
      error_result JNull
        (''Request processing error: '' @
         ''maximum recursion depth exceeded while decoding a JSON array from a unicode string'')]
   \<and> take 14 (''Request processing error: '' @
         ''maximum recursion depth exceeded while decoding a JSON array from a unicode string'')
       \<noteq> ''Invalid JSON: ''"
  by (simp add: main_deep_line)

text \<open>
  C2, amended. A non-blank line on which \<open>json.loads\<close> raises adds to the world exactly one
  document, a result with id \<open>null\<close>, after any lines processed before it, and nothing else
  of the world changes. Its error text is \<open>Invalid JSON: \<close> followed by the text of the
  exception when the exception is a \<open>JSONDecodeError\<close>, and \<open>Request processing error: \<close>
  followed by that text when it is any other exception.
\<close>

theorem parse_failure_reported:
  assumes "strip raw \<noteq> []"
    and "json_loads E (strip raw) = Inl e"
  shows "(cls e = JSONDecodeError \<longrightarrow>
            serve E w (pre @ [raw])
              = print_line (serve E w pre) (error_result JNull (''Invalid JSON: '' @ msg e)))
       \<and> (cls e \<noteq> JSONDecodeError \<longrightarrow>
            serve E w (pre @ [raw])
              = print_line (serve E w pre)
                  (error_result JNull (''Request processing error: '' @ msg e)))"
  using assms by (simp add: serve_snoc handle_line_invalid handle_line_other_error)

theorem parse_failure_reported_witness:
  \<open>strip ''{bad json\<newline>'' \<noteq> []
   \<and> json_loads deep_env (strip ''{bad json\<newline>'') =
        Inl (Exn JSONDecodeError
               ''Expecting property name enclosed in double quotes: line 1 column 2 (char 1)'')
   \<and> serve deep_env loaded_world ([deep_line] @ [''{bad json\<newline>''])
       = print_line (serve deep_env loaded_world [deep_line])
           (error_result JNull
              (''Invalid JSON: '' @
               ''Expecting property name enclosed in double quotes: line 1 column 2 (char 1)''))
   \<and> strip deep_line \<noteq> []
   \<and> json_loads deep_env (strip deep_line) =
        Inl (Exn RuntimeError
               ''maximum recursion depth exceeded while decoding a JSON array from a unicode string'')
   \<and> serve deep_env loaded_world ([''{bad json\<newline>''] @ [deep_line])
       = print_line (serve deep_env loaded_world [''{bad json\<newline>''])
           (error_result JNull
              (''Request processing error: '' @
               ''maximum recursion depth exceeded while decoding a JSON array from a unicode string''))\<close>
proof -
  have n1: \<open>strip ''{bad json\<newline>'' \<noteq> []\<close>
    by (simp add: strip_sample1)
  have j1: \<open>json_loads deep_env (strip ''{bad json\<newline>'') =
        Inl (Exn JSONDecodeError
               ''Expecting property name enclosed in double quotes: line 1 column 2 (char 1)'')\<close>
    by (simp only: strip_sample1 deep_env_sel deep_loads_bad)
  have n2: "strip deep_line \<noteq> []"
    by (simp add: strip_deep_line)
  have j2: "json_loads deep_env (strip deep_line) =
        Inl (Exn RuntimeError
               ''maximum recursion depth exceeded while decoding a JSON array from a unicode string'')"
    by (simp only: strip_deep_line deep_env_sel deep_loads_deep)
  from parse_failure_reported [OF n1 j1, of loaded_world "[deep_line]"]
  have a: \<open>serve deep_env loaded_world ([deep_line] @ [''{bad json\<newline>''])
       = print_line (serve deep_env loaded_world [deep_line])
           (error_result JNull
              (''Invalid JSON: '' @
               ''Expecting property name enclosed in double quotes: line 1 column 2 (char 1)''))\<close>
    by simp
  from parse_failure_reported [OF n2 j2, of loaded_world \<open>[''{bad json\<newline>'']\<close>]
  have b: \<open>serve deep_env loaded_world ([''{bad json\<newline>''] @ [deep_line])
       = print_line (serve deep_env loaded_world [''{bad json\<newline>''])
           (error_result JNull
              (''Request processing error: '' @
               ''maximum recursion depth exceeded while decoding a JSON array from a unicode string''))\<close>
    by simp
  from n1 j1 a n2 j2 b show ?thesis by blast
qed

text \<open>
  C3, as stated, fails: the streaming worker answers a request with an empty text by the
  message \<open>No text provided\<close>, which is not \<open>text is required\<close>.
\<close>

theorem required_field_message_counterexample:
  \<open>stdout (fst (main sample_env [] [''{"text":""}\<newline>'']))
     = [ready, error_result JNull ''No text provided'']
   \<and> field (error_result JNull ''No text provided'') ''error'' \<noteq> Some (JStr ''text is required'')\<close>
  by (simp add: main_sample_no_text error_result_def)

text \<open>
  C3, amended. A request to the embedding worker whose \<open>text\<close> is absent or false in Python's
  sense (the empty string in particular) gets the one result with its own id and the error
  \<open>No text provided\<close>, and the backend's call log is unchanged. A request to the RAG script
  whose \<open>query\<close> is absent or false gets the error \<open>Query is required\<close>, and the world returned
  is the world given, so nothing is loaded or generated.
\<close>

theorem missing_content_rejected:
  "((map_of kv ''text'' = None \<or> (\<exists>t. map_of kv ''text'' = Some t \<and> \<not> truthy t)) \<longrightarrow>
      process_request w (JObj kv) =
        (print_line w
           (error_result (case map_of kv ''id'' of None \<Rightarrow> JNull | Some i \<Rightarrow> i)
              ''No text provided''), None)
      \<and> calls (fst (process_request w (JObj kv))) = calls w)
   \<and> ((map_of kv ''query'' = None \<or> (\<exists>q. map_of kv ''query'' = Some q \<and> \<not> truthy q)) \<longrightarrow>
      rag_process_request E rw (JObj kv) = (rw, failure rw ''Query is required'')
      \<and> backend_log (fst (rag_process_request E rw (JObj kv))) = backend_log rw)"
proof (intro conjI impI)
  assume a: "map_of kv ''text'' = None \<or> (\<exists>t. map_of kv ''text'' = Some t \<and> \<not> truthy t)"
  show "process_request w (JObj kv) =
        (print_line w
           (error_result (case map_of kv ''id'' of None \<Rightarrow> JNull | Some i \<Rightarrow> i)
              ''No text provided''), None)"
    using a by (rule process_request_no_text)
  then show "calls (fst (process_request w (JObj kv))) = calls w"
    by simp
next
  assume a: "map_of kv ''query'' = None \<or> (\<exists>q. map_of kv ''query'' = Some q \<and> \<not> truthy q)"
  show "rag_process_request E rw (JObj kv) = (rw, failure rw ''Query is required'')"
    using a by (rule rag_no_query)
  then show "backend_log (fst (rag_process_request E rw (JObj kv))) = backend_log rw"
    by simp
qed

theorem missing_content_rejected_witness:
  "(\<exists>t. map_of [(''id'', JInt 7), (''text'', JStr '''')] ''text'' = Some t \<and> \<not> truthy t)
   \<and> process_request loaded_world (JObj [(''id'', JInt 7), (''text'', JStr '''')])
       = (print_line loaded_world (error_result (JInt 7) ''No text provided''), None)
   \<and> calls (fst (process_request loaded_world (JObj [(''id'', JInt 7), (''text'', JStr '''')])))
       = calls loaded_world
   \<and> map_of [(''id'', JInt 7), (''text'', JStr '''')] ''query'' = None
   \<and> rag_process_request sample_rag_env rag_start (JObj [(''id'', JInt 7), (''text'', JStr '''')])
       = (rag_start,
          JObj [(''success'', JBool False), (''error'', JStr ''Query is required''),
                (''model'', JStr ''unknown'')])"
  using missing_content_rejected [where kv = "[(''id'', JInt 7), (''text'', JStr '''')]"
      and w = loaded_world and E = sample_rag_env and rw = rag_start]
  by simp



text \<open>
  C5. Context formatting, called as \<open>generate_explanation\<close> calls it (cap 8), on any sequence
  of search results: the loop of the script renders exactly what the specification
  describes (\<open>spec_context\<close>): the first eight results and no others, numbered from 1 in
  input order, each source text longer than 600 characters cut to its first 600 followed by
  \<open>...\<close> and a shorter one left as it is; the empty sequence gives the fixed sentence.
  Formatting a float as a percentage is taken not to raise.
\<close>

theorem context_formatting:
  "((\<forall>f. format_percent E (JFloat f) = Inr (percent f)) \<longrightarrow>
      format_search_context E (JArr (map to_json rs)) 8 = Inr (spec_context percent rs)
      \<and> format_search_context E (JArr (map to_json rs)) 8
          = format_search_context E (JArr (map to_json (take 8 rs))) 8)
   \<and> (rs \<noteq> [] \<longrightarrow>
        spec_context percent rs
          = join ''\<newline>'' (map (spec_block percent)
                                 (zip [1 ..< Suc (min 8 (length rs))] (take 8 rs))))
   \<and> format_search_context E (JArr []) 8 = Inr ''No search results provided.''
   \<and> (length s > 600 \<longrightarrow> spec_truncate s = take 600 s @ ''...'')
   \<and> (length s \<le> 600 \<longrightarrow> spec_truncate s = s)"
proof (intro conjI impI)
  assume p: "\<forall>f. format_percent E (JFloat f) = Inr (percent f)"
  show "format_search_context E (JArr (map to_json rs)) 8 = Inr (spec_context percent rs)"
    using p by (rule format_search_context_to_json)
  show "format_search_context E (JArr (map to_json rs)) 8
          = format_search_context E (JArr (map to_json (take 8 rs))) 8"
    using format_search_context_to_json [OF p, of rs]
      format_search_context_to_json [OF p, of "take 8 rs"]
      spec_context_first_eight [of percent rs]
    by simp
next
  assume "rs \<noteq> []"
  then show "spec_context percent rs
          = join ''\<newline>'' (map (spec_block percent)
                                 (zip [1 ..< Suc (min 8 (length rs))] (take 8 rs)))"
    by (simp add: spec_context_def enumerate_eq_zip min.commute)
next
  show "format_search_context E (JArr []) 8 = Inr ''No search results provided.''"
    by (simp add: format_search_context_def)
next
  assume "length s > 600"
  then show "spec_truncate s = take 600 s @ ''...''"
    by (simp add: spec_truncate_def)
next
  assume "length s \<le> 600"
  then show "spec_truncate s = s"
    by (simp add: spec_truncate_def)
qed

theorem context_formatting_witness:
  "format_search_context sample_rag_env (JArr (map to_json [long_result, short_result])) 8 =
     Inr ((''\<newline>Code Snippet 1 (Relevance: 50.0%) from indexer.ts:\<newline>''
           @ replicate 600 CHR ''x'' @ ''...\<newline>'')
          @ ''\<newline>''
          @ (''\<newline>Code Snippet 2 (Relevance: 75.0%) from README.md:\<newline>''
             @ replicate 500 CHR ''y'' @ ''\<newline>''))
   \<and> format_search_context sample_rag_env (JArr (map to_json (replicate 10 short_result))) 8
       = format_search_context sample_rag_env (JArr (map to_json (replicate 8 short_result))) 8
   \<and> length (replicate 700 CHR ''x'') > 600
   \<and> spec_truncate (replicate 700 CHR ''x'') = replicate 600 CHR ''x'' @ ''...''
   \<and> length (replicate 500 CHR ''y'') \<le> 600
   \<and> spec_truncate (replicate 500 CHR ''y'') = replicate 500 CHR ''y''"
proof -
  note t1 = context_formatting [where E = sample_rag_env and percent = sample_percent
      and rs = "[long_result, short_result]" and s = "replicate 700 CHR ''x''"]
  note t2 = context_formatting [where E = sample_rag_env and percent = sample_percent
      and rs = "replicate 10 short_result" and s = "replicate 500 CHR ''y''"]
  have p: "\<forall>f. format_percent sample_rag_env (JFloat f) = Inr (sample_percent f)"
    by simp
  have l1: "length (replicate 700 CHR ''x'') > 600" and l2: "length (replicate 500 CHR ''y'') \<le> 600"
    by simp_all
  have tk: "take 8 (replicate 10 short_result) = replicate 8 short_result"
    and tx: "take 600 (replicate 700 CHR ''x'') = replicate 600 CHR ''x''"
    by simp_all
  from t1 p have "format_search_context sample_rag_env (JArr (map to_json [long_result, short_result])) 8
      = Inr (spec_context sample_percent [long_result, short_result])"
    by blast
  then have a: "format_search_context sample_rag_env (JArr (map to_json [long_result, short_result])) 8 =
     Inr ((''\<newline>Code Snippet 1 (Relevance: 50.0%) from indexer.ts:\<newline>''
           @ replicate 600 CHR ''x'' @ ''...\<newline>'')
          @ ''\<newline>''
          @ (''\<newline>Code Snippet 2 (Relevance: 75.0%) from README.md:\<newline>''
             @ replicate 500 CHR ''y'' @ ''\<newline>''))"
    by (simp only: sample_context)
  from t2 p have "format_search_context sample_rag_env (JArr (map to_json (replicate 10 short_result))) 8
       = format_search_context sample_rag_env (JArr (map to_json (take 8 (replicate 10 short_result)))) 8"
    by blast
  then have b: "format_search_context sample_rag_env (JArr (map to_json (replicate 10 short_result))) 8
       = format_search_context sample_rag_env (JArr (map to_json (replicate 8 short_result))) 8"
    by (simp only: tk)
  from t1 l1 have "spec_truncate (replicate 700 CHR ''x'') = take 600 (replicate 700 CHR ''x'') @ ''...''"
    by blast
  then have c: "spec_truncate (replicate 700 CHR ''x'') = replicate 600 CHR ''x'' @ ''...''"
    by (simp only: tx)
  from t2 l2 have d: "spec_truncate (replicate 500 CHR ''y'') = replicate 500 CHR ''y''"
    by blast
  from a b l1 c l2 d show ?thesis by blast
qed

text \<open>
  C6, as stated, fails: given a request with an empty query, the RAG script prints a single
  response that is an error and ends with exit code 0, not 1.
\<close>

theorem oneshot_error_exit_counterexample:
  \<open>rag_stdout (fst (rag_main sample_rag_env (Inr ''{"query": ""}'')))
     = [JObj [(''success'', JBool False), (''error'', JStr ''Query is required''),
              (''model'', JStr ''unknown'')]]
   \<and> snd (rag_main sample_rag_env (Inr ''{"query": ""}'')) = 0
   \<and> snd (rag_main sample_rag_env (Inr ''{"query": ""}'')) \<noteq> 1\<close>
  by (simp add: rag_main_empty_query rag_print_def rag_start_def)

text \<open>
  C6, amended. The RAG script always writes exactly one response; its exit code is 1 exactly
  when reading standard input raises or \<open>json.loads\<close> raises on it, and 0 otherwise, also when
  the response reports an error. The embedding script, once its model has loaded, writes
  exactly one response and ends with 0 when that response is a success and with 1 when it
  carries an error; non-blank input on which \<open>json.loads\<close> raises \<open>JSONDecodeError\<close> is not a
  failure there: it is embedded as plain text, with exit code 0 when the backend returns a
  vector. When the model does not load, that script writes nothing and ends with 1.
\<close>

theorem oneshot_exit_codes:
  "length (rag_stdout (fst (rag_main R rag_stdin))) = 1
   \<and> snd (rag_main R rag_stdin) =
       (if (case rag_stdin of Inl e \<Rightarrow> True | Inr s \<Rightarrow> isl (rag_json_loads R s)) then 1 else 0)
   \<and> (from_pretrained E DEFAULT_MODEL_NAME = Inr b \<longrightarrow>
        (\<exists>r. stdout (fst (oneshot_main E stdin)) = [r]
            \<and> (field r ''error'' = None \<and> snd (oneshot_main E stdin) = 0
                \<or> field r ''error'' \<noteq> None \<and> snd (oneshot_main E stdin) = 1)))
   \<and> (from_pretrained E DEFAULT_MODEL_NAME = Inr b
       \<and> json_loads E (strip s) = Inl e \<and> cls e = JSONDecodeError
       \<and> strip s \<noteq> [] \<and> b (JStr (strip s)) = Inr (JArr xs) \<longrightarrow>
        oneshot_main E (Inr s) =
          (print_line (oneshot_start\<lparr>model := Some b, calls := [JStr (strip s)]\<rparr>)
             (JObj [(''embedding'', JArr xs), (''dimensions'', JInt (int (length xs))),
                    (''model'', JStr DEFAULT_MODEL_NAME)]), 0))
   \<and> (from_pretrained E DEFAULT_MODEL_NAME = Inl m \<longrightarrow>
        oneshot_main E stdin = (oneshot_start, 1))"
  using rag_main_one_response [of R rag_stdin] rag_main_exit [of R rag_stdin]
    oneshot_main_loaded [of E b stdin] oneshot_main_plain_text [of E b s e xs]
    oneshot_main_not_loaded [of E m stdin]
  by blast

theorem oneshot_exit_codes_witness:
  \<open>length (rag_stdout (fst (rag_main sample_rag_env (Inr ''{"query": ""}'')))) = 1
   \<and> snd (rag_main sample_rag_env (Inr ''{"query": ""}'')) = 0
   \<and> snd (rag_main sample_rag_env (Inr ''{bad json'')) = 1
   \<and> from_pretrained sample_env DEFAULT_MODEL_NAME = Inr sample_backend
   \<and> (\<exists>r. stdout (fst (oneshot_main sample_env (Inr ''{"text":""}\<newline>''))) = [r])
   \<and> strip ''{bad json\<newline>'' \<noteq> []
   \<and> oneshot_main sample_env (Inr ''{bad json\<newline>'') =
        (print_line (oneshot_start\<lparr>model := Some sample_backend, calls := [JStr ''{bad json'']\<rparr>)
           (JObj [(''embedding'',
                   JArr [JFloat (Finite False 1 (- 1)), JFloat (Finite False 1 (- 2)),
                         JFloat (Finite False 3 (- 3))]),
                  (''dimensions'', JInt 3), (''model'', JStr DEFAULT_MODEL_NAME)]), 0)
   \<and> from_pretrained failing_env DEFAULT_MODEL_NAME = Inl ''no such model''
   \<and> oneshot_main failing_env (Inr ''{bad json\<newline>'') = (oneshot_start, 1)\<close>
proof -
  note t1 = oneshot_exit_codes [where R = sample_rag_env and rag_stdin = \<open>Inr ''{"query": ""}''\<close>
      and E = sample_env and b = sample_backend and stdin = \<open>Inr ''{"text":""}\<newline>''\<close>
      and s = \<open>''{bad json\<newline>''\<close>
      and e = "Exn JSONDecodeError ''Expecting property name enclosed in double quotes: line 1 column 2 (char 1)''"
      and xs = "[JFloat (Finite False 1 (- 1)), JFloat (Finite False 1 (- 2)), JFloat (Finite False 3 (- 3))]"]
  note t2 = oneshot_exit_codes [where R = sample_rag_env and rag_stdin = \<open>Inr ''{bad json''\<close>
      and E = failing_env and m = "''no such model''" and stdin = \<open>Inr ''{bad json\<newline>''\<close>]
  have 1: \<open>length (rag_stdout (fst (rag_main sample_rag_env (Inr ''{"query": ""}'')))) = 1\<close>
    using t1 by blast
  have 2: \<open>snd (rag_main sample_rag_env (Inr ''{"query": ""}'')) = 0\<close>
    using t1 by (simp add: sample_rag_loads_empty_query)
  have 3: \<open>snd (rag_main sample_rag_env (Inr ''{bad json'')) = 1\<close>
    using t2 by (simp add: sample_rag_loads_bad)
  have 4: "from_pretrained sample_env DEFAULT_MODEL_NAME = Inr sample_backend"
    by simp
  have 5: \<open>\<exists>r. stdout (fst (oneshot_main sample_env (Inr ''{"text":""}\<newline>''))) = [r]\<close>
    using t1 4 by blast
  have 6: \<open>strip ''{bad json\<newline>'' \<noteq> []\<close>
    by (simp add: strip_sample1)
  have 7: \<open>oneshot_main sample_env (Inr ''{bad json\<newline>'') =
        (print_line (oneshot_start\<lparr>model := Some sample_backend, calls := [JStr ''{bad json'']\<rparr>)
           (JObj [(''embedding'',
                   JArr [JFloat (Finite False 1 (- 1)), JFloat (Finite False 1 (- 2)),
                         JFloat (Finite False 3 (- 3))]),
                  (''dimensions'', JInt 3), (''model'', JStr DEFAULT_MODEL_NAME)]), 0)\<close>
    using t1 by (simp add: strip_sample1 sample_loads_bad sample_backend_def)
  have 8: "from_pretrained failing_env DEFAULT_MODEL_NAME = Inl ''no such model''"
    by simp
  have 9: \<open>oneshot_main failing_env (Inr ''{bad json\<newline>'') = (oneshot_start, 1)\<close>
    using t2 8 by blast
  from 1 2 3 4 5 6 7 8 9 show ?thesis by blast
qed

text \<open>
  C7. When the model loads, standard output of the streaming worker begins with the ready
  message, everything after it is a result, and so the ready message occurs exactly once;
  the process ends with code 0 at the end of the input. When loading fails, standard
  output is the single error-typed message \<open>Failed to load model: ...\<close>, the exit code is 1,
  no line of the input is read and the backend is never called.
\<close>

theorem ready_once_before_results:
  "(from_pretrained E (MODEL_NAME (start argv)) = Inr b \<longrightarrow>
      (\<exists>rs. stdout (fst (main E argv ls)) = ready # rs
            \<and> (\<forall>r \<in> set rs. field r ''type'' = Some (JStr ''result'')))
      \<and> length (filter (\<lambda>r. r = ready) (stdout (fst (main E argv ls)))) = 1
      \<and> model (fst (main E argv ls)) = Some b
      \<and> snd (main E argv ls) = 0)
   \<and> (from_pretrained E (MODEL_NAME (start argv)) = Inl m \<longrightarrow>
      stdout (fst (main E argv ls)) =
        [JObj [(''type'', JStr ''error''), (''error'', JStr (''Failed to load model: '' @ m))]]
      \<and> snd (main E argv ls) = 1
      \<and> calls (fst (main E argv ls)) = []
      \<and> model (fst (main E argv ls)) = None)"
proof (intro conjI impI)
  assume ok: "from_pretrained E (MODEL_NAME (start argv)) = Inr b"
  let ?w = "print_line ((start argv)\<lparr>model := Some b\<rparr>) ready"
  have m: "main E argv ls = (serve E ?w ls, 0)"
    using ok by (rule main_loaded)
  obtain rs where rs: "stdout (serve E ?w ls) = stdout ?w @ rs"
      "\<forall>r \<in> set rs. field r ''type'' = Some (JStr ''result'')"
    using serve_results [of E ?w ls] by blast
  have out: "stdout (fst (main E argv ls)) = ready # rs"
    using m rs(1) by (simp add: start_def)
  show "\<exists>rs. stdout (fst (main E argv ls)) = ready # rs
            \<and> (\<forall>r \<in> set rs. field r ''type'' = Some (JStr ''result''))"
    using out rs(2) by blast
  show "length (filter (\<lambda>r. r = ready) (stdout (fst (main E argv ls)))) = 1"
    using out no_ready_among_results [OF rs(2)] by simp
  show "model (fst (main E argv ls)) = Some b"
    using m serve_globals [of E ?w ls] by simp
  show "snd (main E argv ls) = 0"
    using m by simp
next
  assume bad: "from_pretrained E (MODEL_NAME (start argv)) = Inl m"
  note f = main_failed [OF bad, of ls]
  show "stdout (fst (main E argv ls)) =
        [JObj [(''type'', JStr ''error''), (''error'', JStr (''Failed to load model: '' @ m))]]"
    using f by (simp add: start_def)
  show "snd (main E argv ls) = 1" using f by simp
  show "calls (fst (main E argv ls)) = []" using f by (simp add: start_def)
  show "model (fst (main E argv ls)) = None" using f by (simp add: start_def)
qed

theorem ready_once_before_results_witness:
  \<open>from_pretrained sample_env (MODEL_NAME (start [])) = Inr sample_backend
   \<and> (\<exists>rs. stdout (fst (main sample_env [] [''{bad json\<newline>''])) = ready # rs
          \<and> list_all (\<lambda>r. field r ''type'' = Some (JStr ''result'')) rs)
   \<and> length (filter (\<lambda>r. r = ready) (stdout (fst (main sample_env [] [''{bad json\<newline>''])))) = 1
   \<and> snd (main sample_env [] [''{bad json\<newline>'']) = 0
   \<and> from_pretrained failing_env (MODEL_NAME (start [])) = Inl ''no such model''
   \<and> stdout (fst (main failing_env [] [''{bad json\<newline>''])) =
        [JObj [(''type'', JStr ''error''),
               (''error'', JStr (''Failed to load model: '' @ ''no such model''))]]
   \<and> snd (main failing_env [] [''{bad json\<newline>'']) = 1
   \<and> calls (fst (main failing_env [] [''{bad json\<newline>''])) = []\<close>
  using ready_once_before_results [of sample_env "[]" sample_backend "[''{bad json\<newline>'']" "''x''"]
    ready_once_before_results [of failing_env "[]" sample_backend "[''{bad json\<newline>'']" "''no such model''"]
  by (simp add: list_all_iff)

text \<open>
  C8. A RAG request whose query is true in Python's sense (a non-empty string in particular)
  and whose \<open>search_results\<close> are absent or empty is answered with the error
  \<open>No search results provided\<close>, and the world returned is the world given: no service is
  created, nothing is loaded and nothing is generated. Run as the script's whole input, it
  gives that one response, exit code 0 and an empty backend log.
\<close>

theorem no_search_results_rejected:
  assumes "map_of kv ''query'' = Some q" and "truthy q"
    and "map_of kv ''search_results'' = None
         \<or> (\<exists>r. map_of kv ''search_results'' = Some r \<and> \<not> truthy r)"
  shows "rag_process_request E w (JObj kv) = (w, failure w ''No search results provided'')
       \<and> (rag_json_loads E s = Inr (JObj kv) \<longrightarrow>
            rag_main E (Inr s) =
              (rag_print rag_start
                 (JObj [(''success'', JBool False),
                        (''error'', JStr ''No search results provided''),
                        (''model'', JStr ''unknown'')]), 0)
            \<and> backend_log (fst (rag_main E (Inr s))) = [])"
proof (intro conjI impI)
  show r: "\<And>w. rag_process_request E w (JObj kv) = (w, failure w ''No search results provided'')"
    using assms by (rule rag_no_results)
  assume p: "rag_json_loads E s = Inr (JObj kv)"
  show m: "rag_main E (Inr s) =
              (rag_print rag_start
                 (JObj [(''success'', JBool False),
                        (''error'', JStr ''No search results provided''),
                        (''model'', JStr ''unknown'')]), 0)"
    using rag_main_parsed [OF p] r [of rag_start] by simp
  show "backend_log (fst (rag_main E (Inr s))) = []"
    by (simp add: m rag_print_def rag_start_def)
qed

theorem no_search_results_rejected_witness:
  \<open>map_of [(''query'', JStr ''how''), (''search_results'', JArr [])] ''query'' = Some (JStr ''how'')
   \<and> truthy (JStr ''how'')
   \<and> (\<exists>r. map_of [(''query'', JStr ''how''), (''search_results'', JArr [])] ''search_results'' = Some r
          \<and> \<not> truthy r)
   \<and> rag_process_request sample_rag_env rag_start
        (JObj [(''query'', JStr ''how''), (''search_results'', JArr [])])
       = (rag_start,
          JObj [(''success'', JBool False), (''error'', JStr ''No search results provided''),
                (''model'', JStr ''unknown'')])
   \<and> rag_main sample_rag_env (Inr ''{"query": "how", "search_results": []}'')
       = (rag_print rag_start
            (JObj [(''success'', JBool False), (''error'', JStr ''No search results provided''),
                   (''model'', JStr ''unknown'')]), 0)
   \<and> map_of [(''query'', JStr ''how'')] ''search_results'' = None
   \<and> rag_main sample_rag_env (Inr ''{"query": "how"}'')
       = (rag_print rag_start
            (JObj [(''success'', JBool False), (''error'', JStr ''No search results provided''),
                   (''model'', JStr ''unknown'')]), 0)\<close>
  using no_search_results_rejected [where kv = "[(''query'', JStr ''how''), (''search_results'', JArr [])]"
      and q = "JStr ''how''" and E = sample_rag_env and w = rag_start
      and s = \<open>''{"query": "how", "search_results": []}''\<close>]
    no_search_results_rejected [where kv = "[(''query'', JStr ''how'')]"
      and q = "JStr ''how''" and E = sample_rag_env and w = rag_start
      and s = \<open>''{"query": "how"}''\<close>]
  by (simp add: sample_rag_loads_empty_results sample_rag_loads_no_results)

text \<open>
  C9. The value of \<open>is_query\<close> never reaches the computation. Both \<open>get_embedding\<close> functions
  return the same for every value of the flag. Two requests that agree on every key other
  than \<open>is_query\<close> (so the flag may be absent, false, true or anything else) are processed
  alike by \<open>process_request\<close>; the lines that carry them leave the streaming worker in the
  same world, and as standard input of the one-shot script they give the same output and
  exit code.
\<close>

theorem is_query_ignored:
  "get_embedding w text q = get_embedding w text q'
   \<and> oneshot_get_embedding w text q = oneshot_get_embedding w text q'
   \<and> ((\<forall>k. k \<noteq> ''is_query'' \<longrightarrow> map_of kv k = map_of kv' k) \<longrightarrow>
        process_request w (JObj kv) = process_request w (JObj kv')
        \<and> (strip s \<noteq> [] \<and> strip s' \<noteq> []
            \<and> json_loads E (strip s) = Inr (JObj kv) \<and> json_loads E (strip s') = Inr (JObj kv')
           \<longrightarrow> handle_line E w s = handle_line E w s'
               \<and> oneshot_main E (Inr s) = oneshot_main E (Inr s')))"
proof (intro conjI impI)
  show "get_embedding w text q = get_embedding w text q'"
    by (rule get_embedding_is_query)
  show "oneshot_get_embedding w text q = oneshot_get_embedding w text q'"
    by (rule oneshot_get_embedding_is_query)
next
  assume a: "\<forall>k. k \<noteq> ''is_query'' \<longrightarrow> map_of kv k = map_of kv' k"
  show "process_request w (JObj kv) = process_request w (JObj kv')"
    using a by (rule process_request_is_query)
  assume l: "strip s \<noteq> [] \<and> strip s' \<noteq> []
      \<and> json_loads E (strip s) = Inr (JObj kv) \<and> json_loads E (strip s') = Inr (JObj kv')"
  show "handle_line E w s = handle_line E w s'"
    using l process_request_is_query [OF a, of w] by (simp add: handle_line_def)
  show "oneshot_main E (Inr s) = oneshot_main E (Inr s')"
  proof -
    have "\<And>w. oneshot_body E w (Inr s) = oneshot_body E w (Inr s')"
      using l oneshot_body_is_query [OF a, of E s s'] by simp
    then show ?thesis
      by (simp add: oneshot_main_def split: sum.split)
  qed
qed

theorem is_query_ignored_witness:
  \<open>(\<forall>k. k = ''is_query'' \<or>
         map_of [(''id'', JInt 3), (''text'', JStr ''a''), (''is_query'', JBool True)] k
         = map_of [(''id'', JInt 3), (''text'', JStr ''a'')] k)
   \<and> strip ''{"id":3,"text":"a","is_query":true}\<newline>'' \<noteq> []
   \<and> strip ''{"id":3,"text":"a"}\<newline>'' \<noteq> []
   \<and> process_request loaded_world
        (JObj [(''id'', JInt 3), (''text'', JStr ''a''), (''is_query'', JBool True)])
       = process_request loaded_world (JObj [(''id'', JInt 3), (''text'', JStr ''a'')])
   \<and> handle_line sample_env loaded_world ''{"id":3,"text":"a","is_query":true}\<newline>''
       = handle_line sample_env loaded_world ''{"id":3,"text":"a"}\<newline>''
   \<and> oneshot_main sample_env (Inr ''{"id":3,"text":"a","is_query":true}\<newline>'')
       = oneshot_main sample_env (Inr ''{"id":3,"text":"a"}\<newline>'')
   \<and> stdout (fst (oneshot_main sample_env (Inr ''{"id":3,"text":"a"}\<newline>'')))
       = [JObj [(''embedding'',
                 JArr [JFloat (Finite False 1 (- 1)), JFloat (Finite False 1 (- 2)),
                       JFloat (Finite False 3 (- 3))]),
                (''dimensions'', JInt 3), (''model'', JStr DEFAULT_MODEL_NAME)]]\<close>
  using is_query_ignored [where kv = "[(''id'', JInt 3), (''text'', JStr ''a''), (''is_query'', JBool True)]"
      and kv' = "[(''id'', JInt 3), (''text'', JStr ''a'')]" and w = loaded_world and E = sample_env
      and s = \<open>''{"id":3,"text":"a","is_query":true}\<newline>''\<close> and s' = \<open>''{"id":3,"text":"a"}\<newline>''\<close>]
  by (simp add: strip_sample_3 strip_sample_3q sample_loads_3 sample_loads_3q
        oneshot_main_def oneshot_body_def oneshot_parse_def oneshot_get_embedding_def
        oneshot_start_def sample_backend_def)

text \<open>
  C10. A non-blank line that \<open>json.loads\<close> turns into an object other than a \<open>dict\<close> (a list,
  a number, a string, a boolean, \<open>null\<close>): \<open>process_request\<close> prints nothing and lets the
  \<open>AttributeError\<close> of its own handler escape; the read loop then prints exactly one result
  with id \<open>null\<close> and an error text beginning \<open>Request processing error: \<close>, and goes on with
  the remaining lines.
\<close>

theorem non_object_request_reported:
  assumes "strip raw \<noteq> []"
    and "json_loads E (strip raw) = Inr v"
    and "\<not> is_dict v"
  shows "process_request w v = (w, Some (no_attribute v ''get''))
       \<and> handle_line E w raw =
           print_line w
             (error_result JNull (''Request processing error: '' @ msg (no_attribute v ''get'')))
       \<and> serve E w (pre @ raw # rest) =
           serve E
             (print_line (serve E w pre)
                (error_result JNull (''Request processing error: '' @ msg (no_attribute v ''get''))))
             rest"
  using assms
  by (simp add: process_request_not_dict handle_line_not_dict serve_append)

theorem non_object_request_reported_witness:
  \<open>strip ''[1]\<newline>'' \<noteq> [] \<and> json_loads sample_env (strip ''[1]\<newline>'') = Inr (JArr [JInt 1])
   \<and> \<not> is_dict (JArr [JInt 1])
   \<and> process_request loaded_world (JArr [JInt 1])
       = (loaded_world, Some (no_attribute (JArr [JInt 1]) ''get''))
   \<and> handle_line sample_env loaded_world ''[1]\<newline>'' =
        print_line loaded_world
          (error_result JNull (''Request processing error: '' @ quoted ''list'' @ '' object has no attribute '' @ quoted ''get''))
   \<and> stdout (serve sample_env loaded_world ([] @ ''[1]\<newline>'' # [''{"id":2,"text":"b"}\<newline>''])) =
        [ready,
         error_result JNull (''Request processing error: '' @ quoted ''list'' @ '' object has no attribute '' @ quoted ''get''),
         JObj [(''type'', JStr ''result''), (''id'', JInt 2),
               (''embedding'', JArr [JFloat (Finite False 1 (- 1)), JFloat (Finite False 1 (- 2)),
                                    JFloat (Finite False 3 (- 3))]),
               (''dimensions'', JInt 3), (''model'', JStr DEFAULT_MODEL_NAME)]]\<close>
  using non_object_request_reported [of "''[1]\<newline>''" sample_env "JArr [JInt 1]" loaded_world "[]"
      "[''{\"id\":2,\"text\":\"b\"}\<newline>'']"]
  by (simp add: strip_sample_arr sample_loads_arr strip_sample_2 sample_loads_2 no_attribute_def
        loaded_world_def handle_line_def process_request_def request_body_def get_embedding_def
        sample_backend_def start_def print_line_def)


end
